theory Spec2Isabelle
  imports Complex_Main "HOL-Library.Word"
begin

section \<open>Arrays and scalars\<close>

text \<open>
  The crowd application of \<^verbatim>\<open>src/crowd/srgan.py\<close> computes on torch tensors and numpy
  arrays. An array is modelled as a nested list in row-major order: a batch of density
  maps of shape \<open>(B, H, W)\<close> is a list of \<open>B\<close> maps, a map a list of \<open>H\<close> rows, a row a
  list of \<open>W\<close> entries. Entries are real numbers: rounding of the floating-point formats
  is not part of the model. The size of a dimension that sits under an empty outer
  dimension is not represented.
\<close>

type_synonym array1 = "real list"
type_synonym array2 = "real list list"
type_synonym array3 = "real list list list"

text \<open>
  A floating-point scalar that is the result of a mean or of a division: \<open>NotFinite\<close>
  stands for the \<^verbatim>\<open>nan\<close> or \<^verbatim>\<open>inf\<close> that the mean of an empty array and a division
  by zero evaluate to (neither raises).
\<close>

datatype scalar = Num real | NotFinite

datatype failure =
    Broadcast           \<comment> \<open>operands of an elementwise operation differ in shape\<close>
  | ConcatenateError    \<comment> \<open>\<^verbatim>\<open>np.concatenate\<close> on arrays whose item shapes differ\<close>
  | AxisError           \<comment> \<open>\<^verbatim>\<open>sum(1)\<close> on an array of one dimension\<close>
  | IndexError          \<comment> \<open>index out of bounds\<close>
  | StackError          \<comment> \<open>the loader stacks items of different shapes\<close>
  | BatchSizeError      \<comment> \<open>\<^verbatim>\<open>DataLoader\<close> rejects a batch size that is not positive\<close>
  | ZeroDivisionError   \<comment> \<open>integer modulo by zero\<close>
  | ValueError string   \<comment> \<open>\<^verbatim>\<open>raise ValueError(message)\<close>\<close>

fun scalar_add :: "scalar \<Rightarrow> scalar \<Rightarrow> scalar" where
  "scalar_add (Num a) (Num b) = Num (a + b)"
| "scalar_add _ _ = NotFinite"

fun scalar_mul :: "scalar \<Rightarrow> real \<Rightarrow> scalar" where
  "scalar_mul (Num a) k = Num (a * k)"
| "scalar_mul NotFinite _ = NotFinite"

definition scalar_div :: "scalar \<Rightarrow> scalar \<Rightarrow> scalar" where
  "scalar_div a b =
     (case (a, b) of
        (Num x, Num y) \<Rightarrow> if y = 0 then NotFinite else Num (x / y)
      | _ \<Rightarrow> NotFinite)"

definition mean :: "array1 \<Rightarrow> scalar" where
  "mean xs = (if xs = [] then NotFinite else Num (sum_list xs / real (length xs)))"

subsection \<open>Shapes\<close>

definition dims2 :: "'a list list \<Rightarrow> nat \<times> nat" where
  "dims2 a = (length a, case a of [] \<Rightarrow> 0 | r # _ \<Rightarrow> length r)"

definition rect2 :: "'a list list \<Rightarrow> bool" where
  "rect2 a = list_all (\<lambda>r. length r = snd (dims2 a)) a"

definition uniform3 :: "'a list list list \<Rightarrow> bool" where
  "uniform3 t =
     (case t of [] \<Rightarrow> True | a # _ \<Rightarrow> list_all (\<lambda>b. rect2 b \<and> dims2 b = dims2 a) t)"

definition same_shape3 :: "'a list list list \<Rightarrow> 'b list list list \<Rightarrow> bool" where
  "same_shape3 s t =
     (uniform3 s \<and> uniform3 t \<and> length s = length t \<and>
      (case (s, t) of (a # _, b # _) \<Rightarrow> dims2 a = dims2 b | _ \<Rightarrow> True))"

subsection \<open>Elementwise operations and reductions\<close>

definition sub1 :: "array1 \<Rightarrow> array1 \<Rightarrow> array1" where
  "sub1 xs ys = map2 (-) xs ys"

definition sub3 :: "array3 \<Rightarrow> array3 \<Rightarrow> array3" where
  "sub3 s t = map2 (map2 (map2 (-))) s t"

definition abs1 :: "array1 \<Rightarrow> array1" where
  "abs1 xs = map abs xs"

definition abs3 :: "array3 \<Rightarrow> array3" where
  "abs3 t = map (map (map abs)) t"

definition pow1 :: "array1 \<Rightarrow> nat \<Rightarrow> array1" where
  "pow1 xs n = map (\<lambda>v. v ^ n) xs"

definition pow3 :: "array3 \<Rightarrow> nat \<Rightarrow> array3" where
  "pow3 t n = map (map (map (\<lambda>v. v ^ n))) t"

text \<open>
  \<^verbatim>\<open>a.sum(1)\<close> on an array of shape \<open>(B, H, W)\<close> adds the \<open>H\<close> rows of every item
  entry by entry; on an array of shape \<open>(B, W)\<close> it adds the entries of every row.
\<close>

definition add_rows :: "array2 \<Rightarrow> array1" where
  "add_rows a = (case a of [] \<Rightarrow> [] | r # rs \<Rightarrow> foldl (\<lambda>acc s. map2 (+) acc s) r rs)"

definition sum_axis1_3 :: "array3 \<Rightarrow> array2" where
  "sum_axis1_3 t = map add_rows t"

definition sum_axis1_2 :: "array2 \<Rightarrow> array1" where
  "sum_axis1_2 a = map sum_list a"

section \<open>The labeled loss\<close>

text \<open>
  \<^verbatim>\<open>CrowdExperiment.labeled_loss_function(self, predicted_labels, labels, order=2)\<close>.
  The subtraction of two tensors of different shapes (which torch broadcasts or rejects)
  is the failure \<open>Broadcast\<close>.
\<close>

definition labeled_loss_function :: "array3 \<times> array1 \<Rightarrow> array3 \<Rightarrow> real \<Rightarrow> failure + scalar" where
  "labeled_loss_function predicted_labels labels order =
     (let density_labels = labels;
          (predicted_density_labels, predicted_count_labels) = predicted_labels
      in if \<not> same_shape3 predicted_density_labels density_labels then Inl Broadcast
         else if length predicted_count_labels \<noteq> length density_labels then Inl Broadcast
         else
           let density_loss =
                 mean (sum_axis1_2 (sum_axis1_3
                   (pow3 (abs3 (sub3 predicted_density_labels density_labels)) 2)));
               count_loss =
                 mean (pow1 (abs1 (sub1 predicted_count_labels
                   (sum_axis1_2 (sum_axis1_3 density_labels)))) 2)
           in Inr (scalar_add count_loss (scalar_mul density_loss 10)))"

text \<open>
  The quantities the specification names, written as sums over the pixels of one item and
  means over the items of a batch.
\<close>

definition spatial_sum :: "array2 \<Rightarrow> real" where
  "spatial_sum a = sum_list (map sum_list a)"

definition number_of_pixels :: "array2 \<Rightarrow> nat" where
  "number_of_pixels a = sum_list (map length a)"

definition item_squared_difference :: "array2 \<Rightarrow> array2 \<Rightarrow> real" where
  "item_squared_difference p d = spatial_sum (map2 (map2 (\<lambda>u v. (u - v)\<^sup>2)) p d)"

definition density_loss_described :: "array3 \<Rightarrow> array3 \<Rightarrow> scalar" where
  "density_loss_described pd d = mean (map2 item_squared_difference pd d)"

definition count_loss_described :: "array1 \<Rightarrow> array3 \<Rightarrow> scalar" where
  "count_loss_described pc d = mean (map2 (\<lambda>c a. (c - spatial_sum a)\<^sup>2) pc d)"

text \<open>
  The loss as the specification words it (ten times the mean over the pixels), and the
  same formula with the sum over the pixels in the place of that mean.
\<close>

definition labeled_loss_mean_per_pixel :: "array3 \<times> array1 \<Rightarrow> array3 \<Rightarrow> scalar" where
  "labeled_loss_mean_per_pixel predicted_labels labels =
     mean (map (\<lambda>(p, c, a).
             (c - spatial_sum a)\<^sup>2 + 10 * (item_squared_difference p a / real (number_of_pixels a)))
           (zip (fst predicted_labels) (zip (snd predicted_labels) labels)))"

definition labeled_loss_sum_over_pixels :: "array3 \<times> array1 \<Rightarrow> array3 \<Rightarrow> scalar" where
  "labeled_loss_sum_over_pixels predicted_labels labels =
     mean (map (\<lambda>(p, c, a). (c - spatial_sum a)\<^sup>2 + 10 * item_squared_difference p a)
           (zip (fst predicted_labels) (zip (snd predicted_labels) labels)))"

section \<open>The evaluation epoch\<close>

text \<open>
  The fields of the \<^verbatim>\<open>Settings\<close> object that the modelled functions read.
\<close>

record settings =
  application :: string
  crowd_dataset :: string
  batch_size :: int

text \<open>
  \<^verbatim>\<open>DataLoader(dataset, batch_size=n)\<close> without shuffling yields the items of the dataset
  in order, \<open>n\<close> at a time, the last batch holding what is left.
\<close>

function data_loader :: "nat \<Rightarrow> 'a list \<Rightarrow> 'a list list" where
  "data_loader n xs = (if n = 0 \<or> xs = [] then [] else take n xs # data_loader n (drop n xs))"
  by pat_completeness auto
termination
  by (relation "measure (\<lambda>(n, xs). length xs)") auto

declare data_loader.simps [simp del]

text \<open>A network maps a batch of images to predicted densities and predicted counts.\<close>

type_synonym 'img network = "'img list \<Rightarrow> array3 \<times> array1"

definition images_to_predicted_labels :: "'img network \<Rightarrow> 'img list \<Rightarrow> array3 \<times> array1" where
  "images_to_predicted_labels network images =
     (let (predicted_densities, predicted_counts) = network images
      in (predicted_densities, predicted_counts))"

definition size3 :: "array3 \<Rightarrow> nat" where
  "size3 t = length (concat (concat t))"

text \<open>
  \<^verbatim>\<open>if a.size == 0: a = a.reshape([0, *batch.shape[1:]])\<close>: an array without entries
  becomes an array without items.
\<close>

definition reshape_if_empty :: "array3 \<Rightarrow> array3" where
  "reshape_if_empty t = (if size3 t = 0 then [] else t)"

definition concatenate3 :: "array3 \<Rightarrow> array3 \<Rightarrow> failure + array3" where
  "concatenate3 s t = (if uniform3 (s @ t) then Inr (s @ t) else Inl ConcatenateError)"

text \<open>
  The accumulators of \<open>evaluation_epoch\<close>:
  \<open>(predicted_counts, densities, predicted_densities)\<close>, and the body of its loop
  for one batch of (image, label) items. The loader stacks the labels of a batch, which
  fails when they differ in shape.
\<close>

type_synonym accumulators = "array1 \<times> array3 \<times> array3"

definition accumulate_batch ::
  "'img network \<Rightarrow> accumulators \<Rightarrow> ('img \<times> array2) list \<Rightarrow> failure + accumulators" where
  "accumulate_batch network acc batch =
     (let (predicted_counts, densities, predicted_densities) = acc;
          images = map fst batch;
          labels = map snd batch
      in if \<not> uniform3 labels then Inl StackError
         else
           let (batch_predicted_densities, batch_predicted_counts) =
                 images_to_predicted_labels network images;
               predicted_counts = predicted_counts @ batch_predicted_counts
           in case concatenate3 (reshape_if_empty predicted_densities) batch_predicted_densities of
                Inl e \<Rightarrow> Inl e
              | Inr predicted_densities \<Rightarrow>
                  (case concatenate3 (reshape_if_empty densities) labels of
                     Inl e \<Rightarrow> Inl e
                   | Inr densities \<Rightarrow> Inr (predicted_counts, densities, predicted_densities)))"

fun accumulate ::
  "'img network \<Rightarrow> accumulators \<Rightarrow> ('img \<times> array2) list list \<Rightarrow> failure + accumulators" where
  "accumulate network acc [] = Inr acc"
| "accumulate network acc (batch # rest) =
     (case accumulate_batch network acc batch of
        Inl e \<Rightarrow> Inl e
      | Inr acc' \<Rightarrow> accumulate network acc' rest)"

text \<open>The four statistics, as lines 139 to 145 compute them.\<close>

definition count_mae :: "array1 \<Rightarrow> array3 \<Rightarrow> scalar" where
  "count_mae predicted_counts densities =
     mean (abs1 (sub1 predicted_counts (sum_axis1_2 (sum_axis1_3 densities))))"

definition density_mae :: "array3 \<Rightarrow> array3 \<Rightarrow> scalar" where
  "density_mae predicted_densities densities =
     mean (sum_axis1_2 (sum_axis1_3 (abs3 (sub3 predicted_densities densities))))"

definition count_mse :: "array1 \<Rightarrow> array3 \<Rightarrow> scalar" where
  "count_mse predicted_counts densities =
     mean (pow1 (abs1 (sub1 predicted_counts (sum_axis1_2 (sum_axis1_3 densities)))) 2)"

definition density_mse :: "array3 \<Rightarrow> array3 \<Rightarrow> scalar" where
  "density_mse predicted_densities densities =
     mean (sum_axis1_2 (sum_axis1_3 (pow3 (abs3 (sub3 predicted_densities densities)) 2)))"

text \<open>The same two statistics with the plain difference squared.\<close>

definition count_mse_plain :: "array1 \<Rightarrow> array3 \<Rightarrow> scalar" where
  "count_mse_plain predicted_counts densities =
     mean (pow1 (sub1 predicted_counts (sum_axis1_2 (sum_axis1_3 densities))) 2)"

definition density_mse_plain :: "array3 \<Rightarrow> array3 \<Rightarrow> scalar" where
  "density_mse_plain predicted_densities densities =
     mean (sum_axis1_2 (sum_axis1_3 (pow3 (sub3 predicted_densities densities) 2)))"

text \<open>
  \<^verbatim>\<open>CrowdExperiment.evaluation_epoch\<close>. The result is the list of the scalars written to
  the summary writer, in order, and the value returned or the failure raised. With no
  batch at all \<^verbatim>\<open>densities\<close> is still the one-dimensional \<^verbatim>\<open>np.array([])\<close>, on which
  \<^verbatim>\<open>sum(1)\<close> raises.
\<close>

definition evaluation_epoch ::
  "settings \<Rightarrow> 'img network \<Rightarrow> ('img \<times> array2) list \<Rightarrow> string \<Rightarrow> scalar option
   \<Rightarrow> (string \<times> scalar) list \<times> (failure + scalar)" where
  "evaluation_epoch settings network dataset summary_name comparison_value =
     (if batch_size settings \<le> 0 then ([], Inl BatchSizeError)
      else
        let dataset_loader = data_loader (nat (batch_size settings)) dataset
        in case accumulate network ([], [], []) dataset_loader of
             Inl e \<Rightarrow> ([], Inl e)
           | Inr (predicted_counts, densities, predicted_densities) \<Rightarrow>
               if dataset_loader = [] then ([], Inl AxisError)
               else if length predicted_counts \<noteq> length densities then ([], Inl Broadcast)
               else
                 let mae = count_mae predicted_counts densities;
                     written = [(summary_name @ ''/MAE'', mae)]
                 in if \<not> same_shape3 predicted_densities densities then (written, Inl Broadcast)
                    else
                      let written = written @
                            [(summary_name @ ''/Density MAE'', density_mae predicted_densities densities),
                             (summary_name @ ''/MSE'', count_mse predicted_counts densities),
                             (summary_name @ ''/Density MSE'', density_mse predicted_densities densities)];
                          written = written @
                            (case comparison_value of
                               None \<Rightarrow> []
                             | Some c \<Rightarrow> [(summary_name @ ''/Ratio MAE GAN DNN'', scalar_div mae c)])
                      in (written, Inr mae))"

definition all_shaped :: "nat \<Rightarrow> nat \<Rightarrow> array3 \<Rightarrow> bool" where
  "all_shaped h w t = list_all (\<lambda>a. rect2 a \<and> dims2 a = (h, w)) t"

text \<open>
  A network for examples: the image it is given is the true density map, which it
  returns together with its sum.
\<close>

definition exact_network :: "array2 network" where
  "exact_network images = (images, map spatial_sum images)"

section \<open>The sliding-window scan\<close>

text \<open>
  A full scene and a patch cut from it. \<^verbatim>\<open>CrowdExampleWithPosition(image, label, x, y)\<close>
  is a patch with the position it was cut at.
\<close>

record 'img full_example =
  example_image :: 'img
  example_label :: array2

record 'img crowd_example_with_position =
  patch_image :: 'img
  patch_label :: array2
  patch_x :: int
  patch_y :: int

text \<open>
  \<^verbatim>\<open>ExtractPatchForPosition\<close> and the test transform live in \<^verbatim>\<open>crowd/data.py\<close>, which is
  not part of the sources at hand: \<open>extract\<close> stands for
  \<^verbatim>\<open>test_transform(extract_patch_transform(full_example, y, x))\<close> and is a parameter.
\<close>

type_synonym 'img extractor = "'img full_example \<Rightarrow> int \<Rightarrow> int \<Rightarrow> 'img \<times> array2"

text \<open>The local variables of \<^verbatim>\<open>batches_of_patches_with_position\<close>.\<close>

record scan =
  scan_x :: int
  scan_y :: int
  scan_half_patch_size :: int

text \<open>
  The \<^verbatim>\<open>for _ in range(self.settings.batch_size)\<close> loop, with the number of iterations
  that remain. The third component of the result tells whether the loop reached the
  \<^verbatim>\<open>return\<close> of line 294.
\<close>

fun fill_batch ::
  "'img extractor \<Rightarrow> 'img full_example \<Rightarrow> nat \<Rightarrow> scan \<Rightarrow> 'img crowd_example_with_position list
   \<Rightarrow> 'img crowd_example_with_position list \<times> scan \<times> bool" where
  "fill_batch extract full_example 0 s batch = (batch, s, False)"
| "fill_batch extract full_example (Suc k) s batch =
     (let x = scan_x s + scan_half_patch_size s;
          (x, y) = (if x \<ge> int (snd (dims2 (example_label full_example)))
                    then (0, scan_y s + scan_half_patch_size s)
                    else (x, scan_y s));
          s = s\<lparr>scan_x := x, scan_y := y\<rparr>
      in if y \<ge> int (fst (dims2 (example_label full_example))) then (batch, s, True)
         else
           let (image, label) = extract full_example y x;
               example_with_position =
                 \<lparr>patch_image = image, patch_label = label, patch_x = x, patch_y = y\<rparr>
           in fill_batch extract full_example k s (batch @ [example_with_position]))"

text \<open>
  The generator object: suspended at the top of the \<^verbatim>\<open>while True\<close> loop with its local
  variables, suspended at the \<^verbatim>\<open>yield\<close> of line 293 (the next resumption returns), or
  finished. \<open>resume\<close> is one \<^verbatim>\<open>next()\<close>: the batch it yields, if any, and the
  generator afterwards.
\<close>

datatype generator = Suspended scan | BeforeReturn | Finished

definition batches_of_patches_with_position :: generator where
  "batches_of_patches_with_position =
     Suspended \<lparr>scan_x = 0, scan_y = 0, scan_half_patch_size = 0\<rparr>"

fun resume ::
  "settings \<Rightarrow> 'img extractor \<Rightarrow> 'img full_example \<Rightarrow> generator
   \<Rightarrow> 'img crowd_example_with_position list option \<times> generator" where
  "resume settings extract full_example (Suspended s) =
     (let (batch, s', returned) =
            fill_batch extract full_example (nat (batch_size settings)) s []
      in if returned then (if batch \<noteq> [] then (Some batch, BeforeReturn) else (None, Finished))
         else (Some batch, Suspended s'))"
| "resume settings extract full_example BeforeReturn = (None, Finished)"
| "resume settings extract full_example Finished = (None, Finished)"

text \<open>
  Running the generator to its end, with a bound on the number of resumptions:
  all batches it yields, or \<open>None\<close> when it has not finished within the bound.
\<close>

fun batches_within ::
  "nat \<Rightarrow> settings \<Rightarrow> 'img extractor \<Rightarrow> 'img full_example \<Rightarrow> generator
   \<Rightarrow> 'img crowd_example_with_position list list option" where
  "batches_within 0 settings extract full_example g = None"
| "batches_within (Suc n) settings extract full_example g =
     (case resume settings extract full_example g of
        (None, _) \<Rightarrow> Some []
      | (Some batch, g') \<Rightarrow>
          map_option ((#) batch) (batches_within n settings extract full_example g'))"

text \<open>The batches yielded by the first \<open>n\<close> resumptions.\<close>

fun yielded ::
  "nat \<Rightarrow> settings \<Rightarrow> 'img extractor \<Rightarrow> 'img full_example \<Rightarrow> generator
   \<Rightarrow> 'img crowd_example_with_position list list" where
  "yielded 0 settings extract full_example g = []"
| "yielded (Suc n) settings extract full_example g =
     (case resume settings extract full_example g of
        (None, _) \<Rightarrow> []
      | (Some batch, g') \<Rightarrow> batch # yielded n settings extract full_example g')"

definition positions :: "'img crowd_example_with_position list list \<Rightarrow> (int \<times> int) list" where
  "positions batches = map (\<lambda>p. (patch_x p, patch_y p)) (concat batches)"

text \<open>An extractor for examples: the scene image is an array and the patch is all of it.\<close>

definition whole_scene :: "array2 extractor" where
  "whole_scene full_example y x = (example_image full_example, example_label full_example)"

text \<open>The patch cut at the position \<open>(0, 0)\<close>.\<close>

definition origin_patch :: "'img extractor \<Rightarrow> 'img full_example \<Rightarrow> 'img crowd_example_with_position" where
  "origin_patch extract full_example =
     (let (image, label) = extract full_example 0 0
      in \<lparr>patch_image = image, patch_label = label, patch_x = 0, patch_y = 0\<rparr>)"

section \<open>The sliding-window evaluation\<close>

subsection \<open>Slices\<close>

text \<open>
  A bound of a Python slice on a sequence of length \<open>n\<close>: a negative bound counts from
  the end, and every bound is clipped to the sequence.
\<close>

definition slice_bound :: "int \<Rightarrow> nat \<Rightarrow> nat" where
  "slice_bound i n = (if i < 0 then nat (i + int n) else min (nat i) n)"

definition slice :: "int \<Rightarrow> int \<Rightarrow> 'a list \<Rightarrow> 'a list" where
  "slice lo hi xs =
     (let a = slice_bound lo (length xs); b = slice_bound hi (length xs)
      in take (b - a) (drop a xs))"

definition slice2 :: "int \<times> int \<Rightarrow> int \<times> int \<Rightarrow> 'a list list \<Rightarrow> 'a list list" where
  "slice2 rows cols a = map (slice (fst cols) (snd cols)) (slice (fst rows) (snd rows) a)"

text \<open>The sequence with the entries of the slice replaced by as many new entries.\<close>

definition assign_slice :: "int \<Rightarrow> int \<Rightarrow> 'a list \<Rightarrow> 'a list \<Rightarrow> 'a list" where
  "assign_slice lo hi xs ys =
     (let a = slice_bound lo (length xs); b = slice_bound hi (length xs)
      in take a xs @ ys @ drop (a + (b - a)) xs)"

text \<open>
  \<^verbatim>\<open>a[rows, cols] += b\<close> for an array \<open>b\<close>, and \<^verbatim>\<open>a[rows, cols] += 1\<close>. An array \<open>b\<close>
  that has not the shape of the region is the failure \<open>Broadcast\<close>.
\<close>

definition add_into ::
  "int \<times> int \<Rightarrow> int \<times> int \<Rightarrow> array2 \<Rightarrow> array2 \<Rightarrow> failure + array2" where
  "add_into rows cols a b =
     (if \<not> (rect2 b \<and> dims2 (slice2 rows cols a) = dims2 b) then Inl Broadcast
      else Inr (assign_slice (fst rows) (snd rows) a
             (map2 (\<lambda>row brow. assign_slice (fst cols) (snd cols) row
                      (map2 (+) (slice (fst cols) (snd cols) row) brow))
                (slice (fst rows) (snd rows) a) b)))"

definition increment_region ::
  "int \<times> int \<Rightarrow> int \<times> int \<Rightarrow> 32 word list list \<Rightarrow> 32 word list list" where
  "increment_region rows cols a =
     assign_slice (fst rows) (snd rows) a
       (map (\<lambda>row. assign_slice (fst cols) (snd cols) row
               (map (\<lambda>h. h + 1) (slice (fst cols) (snd cols) row)))
          (slice (fst rows) (snd rows) a))"

definition full :: "nat \<times> nat \<Rightarrow> 'a \<Rightarrow> 'a list list" where
  "full shape v = replicate (fst shape) (replicate (snd shape) v)"

definition zeros_like :: "'b list list \<Rightarrow> ('a::zero) list list" where
  "zeros_like a = map (map (\<lambda>_. 0)) a"

definition np_sum :: "array2 \<Rightarrow> real" where
  "np_sum a = sum_list (concat a)"

subsection \<open>Accumulating one patch\<close>

text \<open>
  The three aggregation buffers of one scene; the hit counter is an array of 32-bit
  integers.
\<close>

record buffers =
  sum_density_label :: array2
  sum_count_label :: array2
  hit_predicted_label :: "32 word list list"

text \<open>
  Lines 238 to 250: the offsets that clip a patch centred at \<open>(x, y)\<close> against the
  scene. The result is the rows and columns of the scene that the patch covers, and the
  rows and columns of the patch that lie inside the scene. \<open>patch_size\<close> is a constant
  of \<^verbatim>\<open>crowd/data.py\<close> and a parameter here; \<open>shape\<close> is
  \<^verbatim>\<open>full_example.label.shape\<close> and \<open>label_shape\<close> is \<^verbatim>\<open>predicted_label.shape\<close>.
\<close>

definition patch_regions ::
  "int \<Rightarrow> nat \<times> nat \<Rightarrow> nat \<times> nat \<Rightarrow> int \<Rightarrow> int
   \<Rightarrow> ((int \<times> int) \<times> (int \<times> int)) \<times> ((int \<times> int) \<times> (int \<times> int))" where
  "patch_regions patch_size shape label_shape x y =
     (let y_start_offset = 0;
          half_patch_size = patch_size div 2;
          y_start_offset = (if y - half_patch_size < 0 then half_patch_size - y
                            else y_start_offset);
          y_end_offset = 0;
          y_end_offset = (if y + half_patch_size \<ge> int (fst shape)
                          then y + half_patch_size + 1 - int (fst shape) else y_end_offset);
          x_start_offset = 0;
          x_start_offset = (if x - half_patch_size < 0 then half_patch_size - x
                            else x_start_offset);
          x_end_offset = 0;
          x_end_offset = (if x + half_patch_size \<ge> int (snd shape)
                          then x + half_patch_size + 1 - int (snd shape) else x_end_offset)
      in (((y - half_patch_size + y_start_offset, y + half_patch_size + 1 - y_end_offset),
           (x - half_patch_size + x_start_offset, x + half_patch_size + 1 - x_end_offset)),
          ((y_start_offset, int (fst label_shape) - y_end_offset),
           (x_start_offset, int (snd label_shape) - x_end_offset))))"

text \<open>Lines 233 to 261: the body of the loop over the patches of a batch.\<close>

definition add_patch ::
  "int \<Rightarrow> nat \<times> nat \<Rightarrow> array3 \<times> array1 \<Rightarrow> buffers
   \<Rightarrow> nat \<times> 'img crowd_example_with_position \<Rightarrow> failure + buffers" where
  "add_patch patch_size shape predicted buf indexed =
     (let (predicted_labels, predicted_counts) = predicted;
          (example_index, example_with_position) = indexed
      in if example_index \<ge> length predicted_labels then Inl IndexError
         else if example_index \<ge> length predicted_counts then Inl IndexError
         else
           let predicted_label = predicted_labels ! example_index;
               predicted_count = predicted_counts ! example_index;
               label_shape = dims2 predicted_label;
               predicted_count_array =
                 full label_shape (predicted_count / real (fst label_shape * snd label_shape));
               x = patch_x example_with_position;
               y = patch_y example_with_position;
               ((rows, cols), (patch_rows, patch_cols)) =
                 patch_regions patch_size shape label_shape x y
           in case add_into rows cols (sum_density_label buf)
                     (slice2 patch_rows patch_cols predicted_label) of
                Inl e \<Rightarrow> Inl e
              | Inr density \<Rightarrow>
                  (case add_into rows cols (sum_count_label buf)
                          (slice2 patch_rows patch_cols predicted_count_array) of
                     Inl e \<Rightarrow> Inl e
                   | Inr count \<Rightarrow>
                       Inr \<lparr>sum_density_label = density, sum_count_label = count,
                            hit_predicted_label =
                              increment_region rows cols (hit_predicted_label buf)\<rparr>))"

fun add_patches ::
  "int \<Rightarrow> nat \<times> nat \<Rightarrow> array3 \<times> array1 \<Rightarrow> buffers
   \<Rightarrow> (nat \<times> 'img crowd_example_with_position) list \<Rightarrow> failure + buffers" where
  "add_patches patch_size shape predicted buf [] = Inr buf"
| "add_patches patch_size shape predicted buf (indexed # rest) =
     (case add_patch patch_size shape predicted buf indexed of
        Inl e \<Rightarrow> Inl e
      | Inr buf' \<Rightarrow> add_patches patch_size shape predicted buf' rest)"

text \<open>
  Lines 229 to 261: one batch. \<^verbatim>\<open>torch.stack\<close> of no image at all fails.
\<close>

definition process_batch ::
  "'img network \<Rightarrow> int \<Rightarrow> nat \<times> nat \<Rightarrow> buffers \<Rightarrow> 'img crowd_example_with_position list
   \<Rightarrow> failure + buffers" where
  "process_batch network patch_size shape buf batch =
     (if batch = [] then Inl StackError
      else
        let images = map patch_image batch;
            predicted = network images
        in add_patches patch_size shape predicted buf (enumerate 0 batch))"

subsection \<open>One scene and the whole test set\<close>

text \<open>
  The loop \<^verbatim>\<open>for batch in self.batches_of_patches_with_position(full_example)\<close>, followed
  for at most \<open>n\<close> resumptions of the generator: the positions of the patches handed to
  the network so far, the buffers, and how far the loop has come.
\<close>

datatype progress = Scanning | Raised failure | Exhausted

fun aggregate ::
  "nat \<Rightarrow> settings \<Rightarrow> 'img extractor \<Rightarrow> 'img network \<Rightarrow> int \<Rightarrow> 'img full_example
   \<Rightarrow> generator \<Rightarrow> buffers \<Rightarrow> (int \<times> int) list \<times> buffers \<times> progress" where
  "aggregate 0 settings extract network patch_size full_example g buf = ([], buf, Scanning)"
| "aggregate (Suc n) settings extract network patch_size full_example g buf =
     (case resume settings extract full_example g of
        (None, _) \<Rightarrow> ([], buf, Exhausted)
      | (Some batch, g') \<Rightarrow>
          (case process_batch network patch_size (dims2 (example_label full_example)) buf batch of
             Inl e \<Rightarrow> (positions [batch], buf, Raised e)
           | Inr buf' \<Rightarrow>
               (let (ps, b, st) =
                      aggregate n settings extract network patch_size full_example g' buf'
                in (positions [batch] @ ps, b, st))))"

text \<open>Lines 262 to 264: the overlap normalisation.\<close>

definition clamp_hits :: "32 word list list \<Rightarrow> 32 word list list" where
  "clamp_hits hit = map (map (\<lambda>h. if h = 0 then 1 else h)) hit"

definition astype_float32 :: "32 word list list \<Rightarrow> array2" where
  "astype_float32 hit = map (map (\<lambda>h. real_of_int (sint h))) hit"

definition divide2 :: "array2 \<Rightarrow> array2 \<Rightarrow> array2" where
  "divide2 a b = map2 (map2 (/)) a b"

definition normalise :: "buffers \<Rightarrow> array2 \<times> real" where
  "normalise buf =
     (let hit_predicted_label = clamp_hits (hit_predicted_label buf);
          full_predicted_label =
            divide2 (sum_density_label buf) (astype_float32 hit_predicted_label);
          full_predicted_count =
            np_sum (divide2 (sum_count_label buf) (astype_float32 hit_predicted_label))
      in (full_predicted_label, full_predicted_count))"

record totals =
  total_count :: real
  total_count_error :: real
  total_density_error :: real

text \<open>Lines 262 to 269 for one scene whose scan has ended.\<close>

definition add_errors :: "'img full_example \<Rightarrow> buffers \<Rightarrow> totals \<Rightarrow> totals" where
  "add_errors full_example buf t =
     (let (full_predicted_label, full_predicted_count) = normalise buf;
          density_loss =
            np_sum (map (map abs) (map2 (map2 (-)) full_predicted_label (example_label full_example)));
          count_loss = \<bar>full_predicted_count - np_sum (example_label full_example)\<bar>
      in \<lparr>total_count = total_count t + np_sum (example_label full_example),
          total_count_error = total_count_error t + count_loss,
          total_density_error = total_density_error t + density_loss\<rparr>)"

text \<open>
  The loop over the test set. The result lists, for every scene that was started, the
  positions visited and the buffers, and ends with the totals that are printed, a
  failure, or \<open>None\<close> when the scan of a scene is still running after \<open>n\<close> resumptions.
\<close>

fun evaluate_examples ::
  "nat \<Rightarrow> settings \<Rightarrow> 'img extractor \<Rightarrow> 'img network \<Rightarrow> int \<Rightarrow> totals \<Rightarrow> 'img full_example list
   \<Rightarrow> ((int \<times> int) list \<times> buffers) list \<times> (failure + totals) option" where
  "evaluate_examples n settings extract network patch_size t [] = ([], Some (Inr t))"
| "evaluate_examples n settings extract network patch_size t (full_example # rest) =
     (let buf0 = \<lparr>sum_density_label = zeros_like (example_label full_example),
                  sum_count_label = zeros_like (example_label full_example),
                  hit_predicted_label = zeros_like (example_label full_example)\<rparr>;
          (ps, buf, st) = aggregate n settings extract network patch_size full_example
                            batches_of_patches_with_position buf0
      in case st of
           Scanning \<Rightarrow> ([(ps, buf)], None)
         | Raised e \<Rightarrow> ([(ps, buf)], Some (Inl e))
         | Exhausted \<Rightarrow>
             (let (seen, result) =
                    evaluate_examples n settings extract network patch_size
                      (add_errors full_example buf t) rest
              in ((ps, buf) # seen, result)))"

text \<open>
  \<^verbatim>\<open>CrowdExperiment.evaluate(self, sliding_window_step=10)\<close>. \<open>test_dataset\<close> stands for
  \<^verbatim>\<open>ShanghaiTechDataset(dataset='test')\<close>, and the call of the base class method, which
  is not part of the sources at hand, is taken to return.
\<close>

definition evaluate ::
  "nat \<Rightarrow> settings \<Rightarrow> 'img extractor \<Rightarrow> 'img network \<Rightarrow> int \<Rightarrow> 'img full_example list \<Rightarrow> int
   \<Rightarrow> ((int \<times> int) list \<times> buffers) list \<times> (failure + totals) option" where
  "evaluate n settings extract network patch_size test_dataset sliding_window_step =
     (if crowd_dataset settings = ''ShanghaiTech''
      then evaluate_examples n settings extract network patch_size
             \<lparr>total_count = 0, total_count_error = 0, total_density_error = 0\<rparr> test_dataset
      else ([], Some (Inl (ValueError
             (crowd_dataset settings @ '' is not an understood crowd dataset.'')))))"

text \<open>The hit count of the specification: a count of zero is taken as one.\<close>

definition clamped_hit_count :: "32 word \<Rightarrow> real" where
  "clamped_hit_count h = (if h = 0 then 1 else real_of_int (sint h))"

definition shaped2 :: "nat \<Rightarrow> nat \<Rightarrow> 'a list list \<Rightarrow> bool" where
  "shaped2 h w a = (length a = h \<and> list_all (\<lambda>r. length r = w) a)"

text \<open>The three buffers have the shape \<open>(h, w)\<close>.\<close>

definition buffers_shaped :: "nat \<Rightarrow> nat \<Rightarrow> buffers \<Rightarrow> bool" where
  "buffers_shaped h w buf =
     (shaped2 h w (sum_density_label buf) \<and> shaped2 h w (sum_count_label buf)
      \<and> shaped2 h w (hit_predicted_label buf))"

section \<open>Setting up a run\<close>

subsection \<open>The datasets of the crowd application\<close>

text \<open>
  The dataset classes live in \<^verbatim>\<open>crowd/data.py\<close> and \<^verbatim>\<open>crowd/shanghai_tech_data.py\<close>,
  which are not part of the sources at hand. A dataset is recorded by the constructor
  call that makes it: the path and the key of the camera list for \<^verbatim>\<open>CrowdDataset\<close>, the
  \<^verbatim>\<open>dataset\<close> argument (if given) for \<^verbatim>\<open>ShanghaiTechDataset\<close>, and the flag
  \<^verbatim>\<open>unlabeled\<close> for both.
\<close>

datatype dataset =
    CrowdDataset string string bool
  | ShanghaiTechDataset "string option" bool

record datasets =
  train_dataset :: dataset
  unlabeled_dataset :: dataset
  validation_dataset :: dataset

text \<open>\<^verbatim>\<open>CrowdExperiment.dataset_setup\<close>: the datasets assigned to \<^verbatim>\<open>self\<close>, or the error.\<close>

definition dataset_setup :: "settings \<Rightarrow> failure + datasets" where
  "dataset_setup settings =
     (if crowd_dataset settings = ''World Expo'' then
        let dataset_path = ''../World Expo/''
        in Inr \<lparr>train_dataset = CrowdDataset dataset_path ''train'' False,
                unlabeled_dataset = CrowdDataset dataset_path ''train'' True,
                validation_dataset = CrowdDataset dataset_path ''validation'' False\<rparr>
      else if crowd_dataset settings = ''ShanghaiTech'' then
        Inr \<lparr>train_dataset = ShanghaiTechDataset None False,
             unlabeled_dataset = ShanghaiTechDataset None True,
             validation_dataset = ShanghaiTechDataset (Some ''test'') False\<rparr>
      else Inl (ValueError (crowd_dataset settings @ '' is not an understood crowd dataset.'')))"

subsection \<open>The training run of \<^verbatim>\<open>src/srgan.py\<close>\<close>

text \<open>The further fields of the settings that \<^verbatim>\<open>run_srgan\<close> reads.\<close>

record run_settings = settings +
  logs_directory :: string
  trial_name :: string
  temporary_directory :: string
  summary_step_period :: int
  presentation_step_period :: int
  load_model_path :: string
  steps_to_run :: int
  should_save_models :: bool

text \<open>
  What the run takes from outside: the formatted time of its start, whether CUDA is
  available, the step counter of the DNN summary writer after the training steps of an
  iteration (the writer and the training steps live in modules that are not part of the
  sources at hand), and the lines that standard input holds ready in an iteration.
\<close>

record environment =
  datetime_string :: string
  cuda_is_available :: bool
  writer_step :: "nat \<Rightarrow> int"
  stdin_lines :: "nat \<Rightarrow> string list"

text \<open>
  The calls of the run that reach outside, in the order they are made. Calls of other
  modules are taken to return.
\<close>

datatype event =
    SetGlobalTrialDirectory string
  | MakeDirs string
  | NewSummaryWriter string
  | DatasetSetup string
  | ModelSetup string
  | Load string "string option"
  | Print string
  | PrintStep nat
  | DnnTrainingStep nat
  | GanTrainingStep nat
  | ValidationSummaries string nat
  | Save string "nat option"
  | PrintSaved nat

text \<open>\<^verbatim>\<open>os.path.join\<close> of two components, on a POSIX system.\<close>

definition path_join :: "string \<Rightarrow> string \<Rightarrow> string" where
  "path_join a b =
     (case b of
        c # _ \<Rightarrow> if c = CHR ''/'' then b
                 else if a = [] \<or> last a = CHR ''/'' then a @ b
                 else a @ ''/'' @ b
      | [] \<Rightarrow> if a = [] \<or> last a = CHR ''/'' then a else a @ ''/'')"

text \<open>\<^verbatim>\<open>needle in line\<close> for strings.\<close>

fun contains :: "string \<Rightarrow> string \<Rightarrow> bool" where
  "contains needle [] = (needle = [])"
| "contains needle (c # rest) =
     (take (length needle) (c # rest) = needle \<or> contains needle rest)"

text \<open>
  Lines 94 to 100: every line that is ready is read, and a line with \<^verbatim>\<open>save\<close> in it
  saves the three models under names that carry the step.
\<close>

definition poll_stdin :: "nat \<Rightarrow> string list \<Rightarrow> event list" where
  "poll_stdin step lines =
     concat (map (\<lambda>line.
       if contains ''save'' line
       then [Save ''DNN_model'' (Some step), Save ''D_model'' (Some step),
             Save ''G_model'' (Some step), PrintSaved step]
       else []) lines)"

text \<open>
  The condition of line 90. Its two tests divide by the summary period and by the
  presentation period, and the second is only evaluated when the first is false.
\<close>

definition validation_due :: "run_settings \<Rightarrow> environment \<Rightarrow> nat \<Rightarrow> failure + bool" where
  "validation_due settings env step =
     (if summary_step_period settings = 0 then Inl ZeroDivisionError
      else if writer_step env step mod summary_step_period settings = 0 then Inr True
      else if presentation_step_period settings = 0 then Inl ZeroDivisionError
      else Inr (writer_step env step mod presentation_step_period settings = 0))"

text \<open>One iteration of the loop of line 78, for the training module \<open>training_module\<close>.\<close>

definition training_iteration ::
  "string \<Rightarrow> run_settings \<Rightarrow> environment \<Rightarrow> nat \<Rightarrow> event list \<times> failure option" where
  "training_iteration training_module settings env step =
     (if summary_step_period settings = 0 then ([], Some ZeroDivisionError)
      else
        let progress = (if int step mod summary_step_period settings = 0 \<and> step \<noteq> 0
                        then [PrintStep step] else []);
            training = progress @ [DnnTrainingStep step, GanTrainingStep step]
        in case validation_due settings env step of
             Inl e \<Rightarrow> (training, Some e)
           | Inr due \<Rightarrow>
               if due
               then (training @ [ValidationSummaries training_module step]
                       @ poll_stdin step (stdin_lines env step), None)
               else (training, None))"

fun training_loop ::
  "string \<Rightarrow> run_settings \<Rightarrow> environment \<Rightarrow> nat list \<Rightarrow> event list \<times> failure option" where
  "training_loop training_module settings env [] = ([], None)"
| "training_loop training_module settings env (step # steps) =
     (case training_iteration training_module settings env step of
        (events, Some e) \<Rightarrow> (events, Some e)
      | (events, None) \<Rightarrow>
          (let (later, result) = training_loop training_module settings env steps
           in (events @ later, result)))"

text \<open>Lines 49 to 106: the run once the training module is chosen.\<close>

definition train_with ::
  "string \<Rightarrow> run_settings \<Rightarrow> environment \<Rightarrow> string \<Rightarrow> event list \<times> failure option" where
  "train_with training_module settings env trial_directory =
     (let setup = [DatasetSetup training_module, ModelSetup training_module];
          loaded =
            (if load_model_path settings \<noteq> []
             then
               let map_location = (if \<not> cuda_is_available env then Some ''cpu'' else None)
               in [Load (path_join (load_model_path settings) ''DNN_model.pth'') map_location,
                   Load (path_join (load_model_path settings) ''D_model.pth'') map_location,
                   Load (path_join (load_model_path settings) ''G_model.pth'') map_location]
             else []);
          (trained, failed) =
            training_loop training_module settings env [0 ..< nat (steps_to_run settings)];
          events = setup @ loaded @ [Print trial_directory] @ trained
      in case failed of
           Some e \<Rightarrow> (events, Some e)
         | None \<Rightarrow>
             (events @ [Print (''Completed '' @ trial_directory)]
                @ (if should_save_models settings
                   then [Save ''DNN_model'' None, Save ''D_model'' None, Save ''G_model'' None]
                   else []),
              None))"

text \<open>
  \<^verbatim>\<open>run_srgan(settings)\<close>: the calls made, in order, and the exception that ends the
  run, if any.
\<close>

definition run_srgan :: "environment \<Rightarrow> run_settings \<Rightarrow> event list \<times> failure option" where
  "run_srgan env settings =
     (let trial_directory =
            path_join (logs_directory settings)
              (trial_name settings @ '' '' @ datetime_string env);
          started =
            [SetGlobalTrialDirectory trial_directory,
             MakeDirs (path_join trial_directory (temporary_directory settings)),
             NewSummaryWriter (path_join trial_directory ''DNN''),
             NewSummaryWriter (path_join trial_directory ''GAN'')]
      in if application settings = ''coefficient'' then
           (let (events, result) = train_with ''coefficient_training'' settings env trial_directory
            in (started @ events, result))
         else if application settings = ''age'' then
           (let (events, result) = train_with ''age_training'' settings env trial_directory
            in (started @ events, result))
         else
           (started,
            Some (ValueError (''`application` cannot be '' @ application settings @ ''.''))))"

text \<open>An environment and settings for examples.\<close>

definition example_environment :: environment where
  "example_environment =
     \<lparr>datetime_string = ''y2018m04d15h14m14s10'', cuda_is_available = False,
      writer_step = (\<lambda>step. int step), stdin_lines = (\<lambda>step. [])\<rparr>"

definition example_run_settings :: "string \<Rightarrow> run_settings" where
  "example_run_settings name =
     \<lparr>application = name, crowd_dataset = ''ShanghaiTech'', batch_size = 25,
      logs_directory = ''logs'', trial_name = ''ff3 gpu'', temporary_directory = ''temporary'',
      summary_step_period = 25, presentation_step_period = 100, load_model_path = [],
      steps_to_run = 2, should_save_models = True\<rparr>"

text \<open>The events that set up datasets or models, or train.\<close>

definition is_setup_or_training :: "event \<Rightarrow> bool" where
  "is_setup_or_training e =
     (case e of
        DatasetSetup _ \<Rightarrow> True
      | ModelSetup _ \<Rightarrow> True
      | DnnTrainingStep _ \<Rightarrow> True
      | GanTrainingStep _ \<Rightarrow> True
      | _ \<Rightarrow> False)"

section \<open>Properties of the array operations\<close>

lemmas shape_defs = same_shape3_def uniform3_def rect2_def dims2_def

lemmas array_defs = mean_def sum_axis1_2_def sum_axis1_3_def add_rows_def pow3_def abs3_def
  sub3_def pow1_def abs1_def sub1_def

lemma sum_list_map2_add:
  "length xs = length ys \<Longrightarrow> sum_list (map2 (+) xs ys) = sum_list xs + sum_list (ys :: real list)"
  by (induction xs ys rule: list_induct2) simp_all

lemma foldl_add_rows:
  "\<forall>s \<in> set rs. length s = length acc \<Longrightarrow>
   sum_list (foldl (\<lambda>acc s. map2 (+) acc s) acc rs)
     = sum_list acc + sum_list (map sum_list (rs :: real list list))"
proof (induction rs arbitrary: acc)
  case Nil
  then show ?case by simp
next
  case (Cons r rs)
  have len: "length acc = length r" using Cons.prems by simp
  have "\<forall>s \<in> set rs. length s = length (map2 (+) acc r)"
    using Cons.prems by simp
  from Cons.IH [OF this] show ?case
    using len by (simp add: sum_list_map2_add)
qed

lemma add_rows_sum: "rect2 a \<Longrightarrow> sum_list (add_rows a) = spatial_sum a"
  by (cases a) (auto simp: rect2_def dims2_def add_rows_def spatial_sum_def list_all_iff foldl_add_rows)

lemma rect2_iff: "rect2 a \<longleftrightarrow> (\<forall>r \<in> set a. length r = snd (dims2 a))"
  by (simp add: rect2_def list_all_iff)

lemma rect2_map_map: "rect2 a \<Longrightarrow> rect2 (map (map f) a)"
  by (cases a) (auto simp: rect2_def dims2_def list_all_iff)

lemma rect2_map2:
  assumes "rect2 p" "rect2 q" "dims2 p = dims2 q"
  shows "rect2 (map2 (map2 f) p q)"
proof (cases p)
  case Nil
  then show ?thesis by (simp add: rect2_def)
next
  case (Cons r rs)
  then obtain s ss where q: "q = s # ss" using assms(3) by (cases q) (auto simp: dims2_def)
  have w: "length s = length r" using assms(3) Cons q by (simp add: dims2_def)
  have "\<forall>(u, v) \<in> set (zip p q). length u = length r \<and> length v = length r"
    using assms Cons q w
    by (auto simp: rect2_iff dims2_def dest: set_zip_leftD set_zip_rightD)
  then show ?thesis
    using Cons q w by (auto simp: rect2_iff dims2_def)
qed

lemma map_map_map2:
  "map (map f) (map2 (map2 g) p q) = map2 (map2 (\<lambda>u v. f (g u v))) p q"
  by (induction p arbitrary: q; case_tac q) (auto simp: map_zip_map map_zip_map2 zip_map_map cong: map_cong)

lemma same_shape3_zip:
  assumes "same_shape3 s t"
  shows "\<forall>(a, b) \<in> set (zip s t). rect2 a \<and> rect2 b \<and> dims2 a = dims2 b"
proof (cases s)
  case Nil
  then show ?thesis by simp
next
  case (Cons a0 s')
  then obtain b0 t' where t: "t = b0 # t'" using assms by (cases t) (auto simp: same_shape3_def)
  have d0: "dims2 a0 = dims2 b0" using assms Cons t by (simp add: same_shape3_def)
  have us: "\<forall>a \<in> set s. rect2 a \<and> dims2 a = dims2 a0"
    using assms Cons by (simp add: same_shape3_def uniform3_def list_all_iff)
  have ut: "\<forall>b \<in> set t. rect2 b \<and> dims2 b = dims2 b0"
    using assms t by (simp add: same_shape3_def uniform3_def list_all_iff)
  show ?thesis
  proof (clarify)
    fix a b assume ab: "(a, b) \<in> set (zip s t)"
    have "a \<in> set s" "b \<in> set t"
      using ab by (auto dest: set_zip_leftD set_zip_rightD)
    then show "rect2 a \<and> rect2 b \<and> dims2 a = dims2 b"
      using us ut d0 by simp
  qed
qed

lemma item_reduction:
  assumes "rect2 p" "rect2 q" "dims2 p = dims2 q"
  shows "sum_list (add_rows (map (map (\<lambda>v. v ^ 2)) (map (map abs) (map2 (map2 (-)) p q))))
         = item_squared_difference p q"
proof -
  have eq: "map (map (\<lambda>v::real. v ^ 2)) (map (map abs) (map2 (map2 (-)) p q))
            = map2 (map2 (\<lambda>u v. (u - v)\<^sup>2)) p q"
    by (simp only: map_map_map2 power2_abs)
  have "rect2 (map2 (map2 (\<lambda>u v. (u - v)\<^sup>2)) p q)"
    using assms by (rule rect2_map2)
  then show ?thesis
    unfolding eq item_squared_difference_def by (rule add_rows_sum)
qed

lemma density_reduction:
  assumes "same_shape3 pd d"
  shows "sum_axis1_2 (sum_axis1_3 (pow3 (abs3 (sub3 pd d)) 2)) = map2 item_squared_difference pd d"
proof -
  have "sum_axis1_2 (sum_axis1_3 (pow3 (abs3 (sub3 pd d)) 2))
      = map (\<lambda>(p, q). sum_list (add_rows (map (map (\<lambda>v. v ^ 2)) (map (map abs) (map2 (map2 (-)) p q)))))
          (zip pd d)"
    unfolding sum_axis1_2_def sum_axis1_3_def pow3_def abs3_def sub3_def
    by (simp add: case_prod_unfold comp_def)
  also have "\<dots> = map2 item_squared_difference pd d"
  proof (rule map_cong [OF refl])
    fix x assume "x \<in> set (zip pd d)"
    then have "rect2 (fst x) \<and> rect2 (snd x) \<and> dims2 (fst x) = dims2 (snd x)"
      using same_shape3_zip [OF assms] by (cases x) auto
    then show "(case x of (p, q) \<Rightarrow> sum_list (add_rows (map (map (\<lambda>v. v ^ 2))
                 (map (map abs) (map2 (map2 (-)) p q)))))
               = (case x of (p, q) \<Rightarrow> item_squared_difference p q)"
      by (cases x) (simp add: item_reduction del: map_map)
  qed
  finally show ?thesis .
qed

lemma true_count_reduction:
  assumes "uniform3 d"
  shows "sum_axis1_2 (sum_axis1_3 d) = map spatial_sum d"
proof -
  have "\<forall>a \<in> set d. rect2 a"
    using assms by (cases d) (auto simp: uniform3_def list_all_iff)
  then show ?thesis
    by (simp add: sum_axis1_2_def sum_axis1_3_def add_rows_sum)
qed

lemma count_reduction:
  "pow1 (abs1 (sub1 pc (map spatial_sum d))) 2 = map2 (\<lambda>c a. (c - spatial_sum a)\<^sup>2) pc d"
  by (simp add: pow1_def abs1_def sub1_def zip_map2 case_prod_unfold)

lemma labeled_loss_function_eq:
  assumes "same_shape3 pd d" "length pc = length d"
  shows "labeled_loss_function (pd, pc) d order
         = Inr (scalar_add (count_loss_described pc d) (scalar_mul (density_loss_described pd d) 10))"
proof -
  have "uniform3 d" using assms(1) by (simp add: same_shape3_def)
  then show ?thesis
    using assms
    by (simp add: labeled_loss_function_def density_reduction true_count_reduction
        count_reduction count_loss_described_def density_loss_described_def)
qed

lemma sum_list_weighted:
  "length xs = length ys \<Longrightarrow>
   sum_list (map2 (\<lambda>x y. x + 10 * y) xs ys) = sum_list xs + 10 * sum_list (ys :: real list)"
  by (induction xs ys rule: list_induct2) (simp_all add: algebra_simps)

lemma mean_weighted:
  assumes "length xs = length ys"
  shows "scalar_add (mean xs) (scalar_mul (mean ys) 10) = mean (map2 (\<lambda>x y. x + 10 * y) xs ys)"
proof (cases "xs = []")
  case True
  then show ?thesis using assms by (simp add: mean_def)
next
  case False
  then have "ys \<noteq> []" using assms by auto
  then show ?thesis
    using False assms
    by (simp add: mean_def sum_list_weighted add_divide_distrib)
qed

lemma zip_items:
  "length pd = length d \<Longrightarrow> length pc = length d \<Longrightarrow>
   map2 (\<lambda>x y. x + 10 * y) (map2 f pc d) (map2 g pd d)
   = map (\<lambda>(p, c, a). f c a + 10 * g p a) (zip pd (zip pc d))"
  for f :: "real \<Rightarrow> 'a \<Rightarrow> real" and g :: "'b \<Rightarrow> 'a \<Rightarrow> real"
proof -
  assume a: "length pd = length d" and b: "length pc = length d"
  have c: "length d = length pc" using b by simp
  from a c show ?thesis
    by (induction pd d pc rule: list_induct3) simp_all
qed

section \<open>The labeled loss: results\<close>

text \<open>
  Claim C3, as the code has it. For every batch of predicted densities and counts and true
  densities of one shape, \<open>labeled_loss_function\<close> returns the mean over the batch of
  the squared count difference plus ten times the \<^emph>\<open>sum\<close> over the pixels of the
  squared density difference, the true count being the sum of the true density over the
  pixels. (The mean of an empty batch is not a finite number on either side.)
\<close>

theorem labeled_loss_function_is_batch_mean:
  assumes "same_shape3 pd d" "length pc = length d"
  shows "labeled_loss_function (pd, pc) d order = Inr (labeled_loss_sum_over_pixels (pd, pc) d)"
proof -
  have len: "length pd = length d" using assms(1) by (simp add: same_shape3_def)
  have "scalar_add (count_loss_described pc d) (scalar_mul (density_loss_described pd d) 10)
        = labeled_loss_sum_over_pixels (pd, pc) d"
    unfolding count_loss_described_def density_loss_described_def labeled_loss_sum_over_pixels_def
    using len assms(2) by (simp add: mean_weighted zip_items)
  then show ?thesis
    using labeled_loss_function_eq [OF assms] by simp
qed

text \<open>The theorem at a batch of one 2 by 2 item: both hypotheses hold there.\<close>

theorem labeled_loss_function_is_batch_mean_witness:
  "same_shape3 [[[0, 0], [0, 0]]] [[[1, 1], [1, 1 :: real]]] \<and> length [0 :: real] = length [[[1, 1], [1, 1 :: real]]] \<and>
   labeled_loss_function ([[[0, 0], [0, 0]]], [0]) [[[1, 1], [1, 1]]] 2 = Inr (Num 56)"
  using labeled_loss_function_is_batch_mean [of "[[[0, 0], [0, 0]]]" "[[[1, 1], [1, 1]]]" "[0]" 2]
  by (simp add: shape_defs labeled_loss_sum_over_pixels_def item_squared_difference_def
      spatial_sum_def mean_def)

text \<open>
  The formula with the mean over the pixels gives 26 on that batch, where the code
  returns 56.
\<close>

theorem labeled_loss_mean_per_pixel_counterexample:
  "labeled_loss_function ([[[0, 0], [0, 0]]], [0]) [[[1, 1], [1, 1]]] 2 = Inr (Num 56) \<and>
   labeled_loss_mean_per_pixel ([[[0, 0], [0, 0]]], [0]) [[[1, 1], [1, 1]]] = Num 26 \<and>
   labeled_loss_function ([[[0, 0], [0, 0]]], [0]) [[[1, 1], [1, 1]]] 2
     \<noteq> Inr (labeled_loss_mean_per_pixel ([[[0, 0], [0, 0]]], [0]) [[[1, 1], [1, 1]]])"
  by (simp add: labeled_loss_function_def shape_defs array_defs labeled_loss_mean_per_pixel_def
      item_squared_difference_def spatial_sum_def number_of_pixels_def)

text \<open>
  Claim C4. \<open>labeled_loss_function\<close> returns the count loss plus ten times the density
  loss, the density loss being the batch mean of the sum over an item's pixels of the
  squared density difference and the count loss the batch mean of the squared count
  difference. For one item with an all-zero 2 by 2 predicted density, true density
  \<open>[[1, 1], [1, 1]]\<close> and predicted count 0, the count loss is 16, the density loss 4
  and the result 56.
\<close>

theorem labeled_loss_function_composition:
  "(same_shape3 pd d \<and> length pc = length d \<longrightarrow>
      labeled_loss_function (pd, pc) d order
        = Inr (scalar_add (count_loss_described pc d) (scalar_mul (density_loss_described pd d) 10)))
   \<and> count_loss_described [0] [[[1, 1], [1, 1]]] = Num 16
   \<and> density_loss_described [[[0, 0], [0, 0]]] [[[1, 1], [1, 1]]] = Num 4
   \<and> labeled_loss_function ([[[0, 0], [0, 0]]], [0]) [[[1, 1], [1, 1]]] order = Inr (Num 56)"
proof -
  have "labeled_loss_function ([[[0, 0], [0, 0]]], [0]) [[[1, 1], [1, 1]]] order = Inr (Num 56)"
    by (simp add: labeled_loss_function_def shape_defs array_defs)
  moreover have "count_loss_described [0] [[[1, 1], [1, 1]]] = Num 16"
    by (simp add: count_loss_described_def spatial_sum_def mean_def)
  moreover have "density_loss_described [[[0, 0], [0, 0]]] [[[1, 1], [1, 1]]] = Num 4"
    by (simp add: density_loss_described_def item_squared_difference_def spatial_sum_def mean_def)
  ultimately show ?thesis
    using labeled_loss_function_eq by blast
qed

text \<open>The general part at a batch of two 1 by 2 items.\<close>

theorem labeled_loss_function_composition_witness:
  "same_shape3 [[[1, 2]], [[3, 4]]] [[[0, 1]], [[1, 1 :: real]]] \<and>
   length [2, 3 :: real] = length [[[0, 1]], [[1, 1 :: real]]] \<and>
   labeled_loss_function ([[[1, 2]], [[3, 4]]], [2, 3]) [[[0, 1]], [[1, 1]]] 2 = Inr (Num 76)"
  using labeled_loss_function_composition [of "[[[1, 2]], [[3, 4]]]" "[[[0, 1]], [[1, 1]]]" "[2, 3]" 2]
  by (simp add: shape_defs count_loss_described_def density_loss_described_def
      item_squared_difference_def spatial_sum_def mean_def)

text \<open>
  Claim C10. The parameter \<open>order\<close> of \<open>labeled_loss_function\<close> has no effect on the
  result: the exponent is the constant 2.
\<close>

theorem labeled_loss_function_ignores_order:
  "labeled_loss_function predicted_labels labels order1
   = labeled_loss_function predicted_labels labels order2"
  by (simp add: labeled_loss_function_def)

section \<open>The evaluation epoch: results\<close>

lemma data_loader_concat: "0 < n \<Longrightarrow> concat (data_loader n xs) = xs"
proof (induction n xs rule: data_loader.induct)
  case (1 n xs)
  show ?case
  proof (cases "xs = []")
    case True
    then show ?thesis by (simp add: data_loader.simps)
  next
    case False
    then have "concat (data_loader n (drop n xs)) = drop n xs"
      using 1 by simp
    then show ?thesis
      using False 1(2) by (subst data_loader.simps) simp
  qed
qed

lemma data_loader_nonempty: "b \<in> set (data_loader n xs) \<Longrightarrow> b \<noteq> []"
proof (induction n xs rule: data_loader.induct)
  case (1 n xs)
  show ?case
  proof (cases "n = 0 \<or> xs = []")
    case True
    then show ?thesis using 1(2) by (simp add: data_loader.simps)
  next
    case False
    then have "b = take n xs \<or> b \<in> set (data_loader n (drop n xs))"
      using 1(2) by (subst (asm) data_loader.simps) simp
    then show ?thesis using False 1(1) by auto
  qed
qed

lemma data_loader_Nil: "0 < n \<Longrightarrow> data_loader n xs = [] \<longleftrightarrow> xs = []"
  by (subst data_loader.simps) simp

lemma all_shaped_uniform3: "all_shaped h w t \<Longrightarrow> uniform3 t"
  by (cases t) (auto simp: all_shaped_def uniform3_def list_all_iff)

lemma all_shaped_append: "all_shaped h w (s @ t) \<longleftrightarrow> all_shaped h w s \<and> all_shaped h w t"
  by (simp add: all_shaped_def)

lemma all_shaped_size3:
  assumes "all_shaped h w t" "0 < h" "0 < w" "t \<noteq> []"
  shows "size3 t \<noteq> 0"
proof -
  obtain a t' where t: "t = a # t'" using assms(4) by (cases t) auto
  then have a: "rect2 a" "dims2 a = (h, w)" using assms(1) by (simp_all add: all_shaped_def)
  then obtain r a' where ar: "a = r # a'" using assms(2) by (cases a) (auto simp: dims2_def)
  then have "length r = w" using a(2) by (simp add: dims2_def)
  then have "r \<noteq> []" using assms(3) by auto
  then show ?thesis using t ar by (simp add: size3_def)
qed

lemma reshape_if_empty_shaped:
  "all_shaped h w t \<Longrightarrow> 0 < h \<Longrightarrow> 0 < w \<Longrightarrow> reshape_if_empty t = t"
  using all_shaped_size3 [of h w t] by (cases "t = []") (auto simp: reshape_if_empty_def)

lemma spatial_sum_diagonal:
  assumes "\<And>u. f u u = (0::real)"
  shows "spatial_sum (map2 (map2 f) a a) = 0"
proof -
  have row: "sum_list (map2 f r r) = 0" for r
    by (induction r) (simp_all add: assms)
  show ?thesis
    unfolding spatial_sum_def by (induction a) (simp_all add: row)
qed

lemma item_reduction_general:
  assumes "rect2 p" "rect2 q" "dims2 p = dims2 q"
  shows "sum_list (add_rows (map2 (map2 f) p q)) = spatial_sum (map2 (map2 f) p q)"
  using assms by (intro add_rows_sum rect2_map2)

lemma reduce_diagonal:
  assumes "uniform3 t" and "\<And>u. f u u = (0::real)"
  shows "sum_axis1_2 (sum_axis1_3 (map2 (map2 (map2 f)) t t)) = map (\<lambda>_. 0) t"
proof -
  have r: "\<forall>a \<in> set t. rect2 a"
    using assms(1) by (cases t) (auto simp: uniform3_def list_all_iff)
  have "sum_axis1_2 (sum_axis1_3 (map2 (map2 (map2 f)) t t))
        = map (\<lambda>a. sum_list (add_rows (map2 (map2 f) a a))) t"
    unfolding sum_axis1_2_def sum_axis1_3_def by (induction t) simp_all
  also have "\<dots> = map (\<lambda>_. 0) t"
    using r by (intro map_cong refl) (simp add: item_reduction_general spatial_sum_diagonal assms(2))
  finally show ?thesis .
qed

lemma mean_zeros: "t \<noteq> [] \<Longrightarrow> mean (map (\<lambda>_. 0) t) = Num 0"
  by (simp add: mean_def)

lemma map_map2: "map f (map2 g xs ys) = map2 (\<lambda>u v. f (g u v)) xs ys"
  by (induction xs arbitrary: ys; case_tac ys) simp_all

lemma map3_map2:
  "map (map (map f)) (map2 (map2 (map2 g)) s t) = map2 (map2 (map2 (\<lambda>u v. f (g u v)))) s t"
  by (simp only: map_map2)

lemma abs3_sub3: "abs3 (sub3 s t) = map2 (map2 (map2 (\<lambda>u v. \<bar>u - v\<bar>))) s t"
  unfolding abs3_def sub3_def by (rule map3_map2)

lemma pow3_abs3_sub3: "pow3 (abs3 (sub3 s t)) 2 = map2 (map2 (map2 (\<lambda>u v. (u - v)\<^sup>2))) s t"
  unfolding pow3_def abs3_def sub3_def by (simp only: map3_map2 power2_abs)

lemma exact_statistics:
  assumes "uniform3 t" "t \<noteq> []"
  shows "count_mae (map spatial_sum t) t = Num 0"
    and "density_mae t t = Num 0"
    and "count_mse (map spatial_sum t) t = Num 0"
    and "density_mse t t = Num 0"
proof -
  have z: "sub1 (map spatial_sum t) (map spatial_sum t) = map (\<lambda>_. 0) t"
    unfolding sub1_def by (induction t) simp_all
  show "count_mae (map spatial_sum t) t = Num 0"
    using assms by (simp add: count_mae_def true_count_reduction z abs1_def mean_def comp_def)
  show "count_mse (map spatial_sum t) t = Num 0"
    using assms by (simp add: count_mse_def true_count_reduction z abs1_def pow1_def mean_def comp_def)
  show "density_mae t t = Num 0"
    using assms by (simp add: density_mae_def abs3_sub3 reduce_diagonal mean_zeros)
  show "density_mse t t = Num 0"
    using assms by (simp add: density_mse_def pow3_abs3_sub3 reduce_diagonal mean_zeros)
qed

lemma accumulate_batch_exact:
  assumes "0 < h" "0 < w" "all_shaped h w t" "all_shaped h w (map snd batch)"
    and "network (map fst batch) = (map snd batch, map spatial_sum (map snd batch))"
  shows "accumulate_batch network (map spatial_sum t, t, t) batch
         = Inr (map spatial_sum (t @ map snd batch), t @ map snd batch, t @ map snd batch)"
proof -
  have "uniform3 (map snd batch)"
    using assms(4) by (rule all_shaped_uniform3)
  moreover have "uniform3 (t @ map snd batch)"
    using assms(3,4) by (intro all_shaped_uniform3 [of h w]) (simp add: all_shaped_append)
  moreover have "reshape_if_empty t = t"
    using assms(1-3) by (simp add: reshape_if_empty_shaped)
  ultimately show ?thesis
    using assms(5)
    by (simp add: accumulate_batch_def images_to_predicted_labels_def concatenate3_def)
qed

lemma accumulate_exact:
  assumes "0 < h" "0 < w"
  shows "all_shaped h w t \<Longrightarrow> all_shaped h w (map snd (concat bs)) \<Longrightarrow>
         \<forall>b \<in> set bs. network (map fst b) = (map snd b, map spatial_sum (map snd b)) \<Longrightarrow>
         accumulate network (map spatial_sum t, t, t) bs
         = Inr (map spatial_sum (t @ map snd (concat bs)), t @ map snd (concat bs),
                t @ map snd (concat bs))"
proof (induction bs arbitrary: t)
  case Nil
  then show ?case by simp
next
  case (Cons b bs)
  have b: "all_shaped h w (map snd b)" and bs: "all_shaped h w (map snd (concat bs))"
    using Cons.prems(2) by (simp_all add: all_shaped_append)
  have step: "accumulate_batch network (map spatial_sum t, t, t) b
              = Inr (map spatial_sum (t @ map snd b), t @ map snd b, t @ map snd b)"
    using assms Cons.prems(1) b Cons.prems(3) by (intro accumulate_batch_exact) simp_all
  have t': "all_shaped h w (t @ map snd b)"
    using Cons.prems(1) b by (simp add: all_shaped_append)
  have "accumulate network (map spatial_sum (t @ map snd b), t @ map snd b, t @ map snd b) bs
        = Inr (map spatial_sum ((t @ map snd b) @ map snd (concat bs)),
               (t @ map snd b) @ map snd (concat bs), (t @ map snd b) @ map snd (concat bs))"
    using Cons.prems(3) by (intro Cons.IH [OF t' bs]) simp
  then show ?case
    using step by simp
qed

text \<open>
  Claim C6, as the code has it. For every dataset that is not empty, whose density maps
  all have one shape with at least one pixel, loaded with a positive batch size, and on
  which the network returns the true density and its sum as the count,
  \<open>evaluation_epoch\<close> writes count MAE 0, density MAE 0, count MSE 0 and density
  MSE 0, and returns 0.
\<close>

theorem evaluation_epoch_exact_network:
  assumes "0 < batch_size settings" and "dataset \<noteq> []" and "0 < h" and "0 < w"
    and "all_shaped h w (map snd dataset)"
    and "\<forall>batch \<in> set (data_loader (nat (batch_size settings)) dataset).
           network (map fst batch) = (map snd batch, map spatial_sum (map snd batch))"
  shows "evaluation_epoch settings network dataset summary_name comparison_value
         = ([(summary_name @ ''/MAE'', Num 0), (summary_name @ ''/Density MAE'', Num 0),
             (summary_name @ ''/MSE'', Num 0), (summary_name @ ''/Density MSE'', Num 0)]
            @ (case comparison_value of
                 None \<Rightarrow> []
               | Some c \<Rightarrow> [(summary_name @ ''/Ratio MAE GAN DNN'', scalar_div (Num 0) c)]),
            Inr (Num 0))"
proof -
  define n where "n = nat (batch_size settings)"
  define t where "t = map snd dataset"
  have n: "0 < n" using assms(1) by (simp add: n_def)
  have cat: "concat (data_loader n dataset) = dataset"
    using n by (rule data_loader_concat)
  have "all_shaped h w []" by (simp add: all_shaped_def)
  then have "accumulate network (map spatial_sum [], [], []) (data_loader n dataset)
             = Inr (map spatial_sum ([] @ map snd (concat (data_loader n dataset))),
                    [] @ map snd (concat (data_loader n dataset)),
                    [] @ map snd (concat (data_loader n dataset)))"
    using assms(3-6) unfolding n_def [symmetric]
    by (intro accumulate_exact [of h w]) (simp_all add: cat)
  then have acc: "accumulate network ([], [], []) (data_loader n dataset)
                  = Inr (map spatial_sum t, t, t)"
    by (simp add: cat t_def)
  have ne: "t \<noteq> []" using assms(2) by (simp add: t_def)
  have u: "uniform3 t" using assms(5) unfolding t_def by (rule all_shaped_uniform3)
  have same: "same_shape3 t t" using u by (cases t) (simp_all add: same_shape3_def)
  have loader: "data_loader n dataset \<noteq> []" using n assms(2) by (simp add: data_loader_Nil)
  show ?thesis
    using assms(1) acc ne same loader exact_statistics [OF u ne]
    unfolding evaluation_epoch_def n_def [symmetric]
    by (simp add: Let_def)
qed

text \<open>The theorem at three 1 by 2 maps in batches of two, with a comparison value.\<close>

theorem evaluation_epoch_exact_network_witness:
  "evaluation_epoch \<lparr>application = ''age'', crowd_dataset = ''ShanghaiTech'', batch_size = 2\<rparr>
     exact_network [([[1, 2]], [[1, 2]]), ([[3, 4]], [[3, 4]]), ([[5, 6]], [[5, 6]])]
     ''1 Validation Error'' (Some (Num 2))
   = ([(''1 Validation Error/MAE'', Num 0), (''1 Validation Error/Density MAE'', Num 0),
       (''1 Validation Error/MSE'', Num 0), (''1 Validation Error/Density MSE'', Num 0),
       (''1 Validation Error/Ratio MAE GAN DNN'', Num 0)], Inr (Num 0))"
  using evaluation_epoch_exact_network
    [of "\<lparr>application = ''age'', crowd_dataset = ''ShanghaiTech'', batch_size = 2\<rparr>"
        "[([[1, 2]], [[1, 2]]), ([[3, 4]], [[3, 4]]), ([[5, 6]], [[5, 6]])]" 1 2 exact_network
        "''1 Validation Error''" "Some (Num 2)"]
  by (simp add: all_shaped_def rect2_def dims2_def data_loader.simps exact_network_def scalar_div_def)

text \<open>
  On the empty dataset the loop body never runs, \<^verbatim>\<open>densities\<close> keeps one dimension, and
  \<^verbatim>\<open>densities.sum(1)\<close> raises: nothing is written and nothing is returned.
\<close>

theorem evaluation_epoch_empty_dataset_counterexample:
  "evaluation_epoch \<lparr>application = ''age'', crowd_dataset = ''ShanghaiTech'', batch_size = 2\<rparr>
     exact_network [] ''1 Validation Error'' None = ([], Inl AxisError)"
  by (simp add: evaluation_epoch_def data_loader.simps)

text \<open>
  Claim C7. The count MSE and the density MSE of \<open>evaluation_epoch\<close>, which square the
  absolute difference, equal the statistics that square the plain difference, for all
  arrays: \<open>\<bar>a - b\<bar>\<^sup>2 = (a - b)\<^sup>2\<close> for all reals.
\<close>

theorem squared_absolute_difference:
  "count_mse predicted_counts densities = count_mse_plain predicted_counts densities
   \<and> density_mse predicted_densities densities = density_mse_plain predicted_densities densities
   \<and> (\<forall>a b :: real. \<bar>a - b\<bar>\<^sup>2 = (a - b)\<^sup>2)"
  by (simp add: count_mse_def count_mse_plain_def density_mse_def density_mse_plain_def
      pow1_def abs1_def pow3_def abs3_def comp_def)

section \<open>The sliding-window scan: results\<close>

lemma fill_batch_origin:
  assumes "0 < fst (dims2 (example_label full_example))"
  shows "fill_batch extract full_example k \<lparr>scan_x = 0, scan_y = 0, scan_half_patch_size = 0\<rparr> batch
         = (batch @ replicate k (origin_patch extract full_example),
            \<lparr>scan_x = 0, scan_y = 0, scan_half_patch_size = 0\<rparr>, False)"
proof (induction k arbitrary: batch)
  case 0
  show ?case by simp
next
  case (Suc k)
  show ?case
    using assms
    by (simp add: Suc.IH origin_patch_def Let_def replicate_app_Cons_same split: prod.split)
qed

lemma resume_origin:
  assumes "0 < fst (dims2 (example_label full_example))"
  shows "resume settings extract full_example batches_of_patches_with_position
         = (Some (replicate (nat (batch_size settings)) (origin_patch extract full_example)),
            batches_of_patches_with_position)"
  by (simp add: batches_of_patches_with_position_def fill_batch_origin [OF assms])

lemma yielded_origin:
  assumes "0 < fst (dims2 (example_label full_example))"
  shows "yielded n settings extract full_example batches_of_patches_with_position
         = replicate n (replicate (nat (batch_size settings)) (origin_patch extract full_example))"
  by (induction n) (simp_all add: resume_origin [OF assms])

lemma concat_replicate_replicate: "concat (replicate n (replicate k v)) = replicate (n * k) v"
  by (induction n) (simp_all add: replicate_add)

text \<open>
  Claim C1 asks that the scan of every scene of positive height and width ends. The
  generator never assigns \<^verbatim>\<open>half_patch_size\<close> after its initial \<open>0\<close> (the comment of
  line 283 announces the first patch only), so neither coordinate ever moves: for every
  scene of positive height the generator has not finished after \<open>n\<close> resumptions,
  whatever \<open>n\<close> is.
\<close>

theorem scan_never_finishes:
  assumes "0 < fst (dims2 (example_label full_example))"
  shows "batches_within n settings extract full_example batches_of_patches_with_position = None"
  by (induction n) (simp_all add: resume_origin [OF assms])

text \<open>A scene of two rows and three columns, batches of two, a thousand resumptions.\<close>

theorem scan_never_finishes_witness:
  "0 < fst (dims2 (example_label \<lparr>example_image = [[1, 2, 3], [4, 5, 6]],
                                   example_label = [[0, 1, 0], [0, 0, 0]]\<rparr>))
   \<and> batches_within 1000 \<lparr>application = ''age'', crowd_dataset = ''ShanghaiTech'', batch_size = 2\<rparr>
        whole_scene
        \<lparr>example_image = [[1, 2, 3], [4, 5, 6]], example_label = [[0, 1, 0], [0, 0, 0]]\<rparr>
        batches_of_patches_with_position = None"
  using scan_never_finishes
    [of "\<lparr>example_image = [[1, 2, 3], [4, 5, 6]], example_label = [[0, 1, 0], [0, 0, 0]]\<rparr>"
        1000 "\<lparr>application = ''age'', crowd_dataset = ''ShanghaiTech'', batch_size = 2\<rparr>"
        whole_scene]
  by (simp add: dims2_def)

text \<open>
  Claim C2 asks that consecutive window centres differ by the sliding-window step. For
  every scene of positive height, all patches of the first \<open>n\<close> batches are cut at
  \<open>(0, 0)\<close>: the step between consecutive centres is \<open>0\<close>, and the step size passed
  to \<^verbatim>\<open>evaluate\<close> is never read.
\<close>

theorem scan_stays_at_origin:
  assumes "0 < fst (dims2 (example_label full_example))"
  shows "positions (yielded n settings extract full_example batches_of_patches_with_position)
         = replicate (n * nat (batch_size settings)) (0, 0)"
  by (simp add: positions_def yielded_origin [OF assms] concat_replicate_replicate
      origin_patch_def split: prod.split)

text \<open>The same scene: the four patches of the first two batches.\<close>

theorem scan_stays_at_origin_witness:
  "0 < fst (dims2 (example_label \<lparr>example_image = [[1, 2, 3], [4, 5, 6]],
                                   example_label = [[0, 1, 0], [0, 0, 0]]\<rparr>))
   \<and> positions (yielded 2 \<lparr>application = ''age'', crowd_dataset = ''ShanghaiTech'', batch_size = 2\<rparr>
        whole_scene
        \<lparr>example_image = [[1, 2, 3], [4, 5, 6]], example_label = [[0, 1, 0], [0, 0, 0]]\<rparr>
        batches_of_patches_with_position) = [(0, 0), (0, 0), (0, 0), (0, 0)]"
  using scan_stays_at_origin
    [of "\<lparr>example_image = [[1, 2, 3], [4, 5, 6]], example_label = [[0, 1, 0], [0, 0, 0]]\<rparr>"
        2 "\<lparr>application = ''age'', crowd_dataset = ''ShanghaiTech'', batch_size = 2\<rparr>"
        whole_scene]
  by (simp add: dims2_def eval_nat_numeral)

section \<open>The sliding-window evaluation: results\<close>

lemma shaped2_nth: "shaped2 h w a \<Longrightarrow> i < h \<Longrightarrow> length (a ! i) = w"
  by (simp add: shaped2_def list_all_length)

lemma astype_clamp_nth:
  assumes "shaped2 h w hit" "i < h" "j < w"
  shows "astype_float32 (clamp_hits hit) ! i ! j = clamped_hit_count (hit ! i ! j)"
  using assms shaped2_nth [OF assms(1,2)]
  by (simp add: astype_float32_def clamp_hits_def clamped_hit_count_def shaped2_def)

lemma divisors_nonzero: "row \<in> set (astype_float32 (clamp_hits hit)) \<Longrightarrow> 0 \<notin> set row"
  by (auto simp: astype_float32_def clamp_hits_def signed_eq_0_iff split: if_splits)

lemma shaped2_astype_clamp: "shaped2 h w hit \<Longrightarrow> shaped2 h w (astype_float32 (clamp_hits hit))"
  by (simp add: shaped2_def astype_float32_def clamp_hits_def list_all_iff)

lemma divide2_nth:
  assumes "shaped2 h w a" "shaped2 h w b" "i < h" "j < w"
  shows "divide2 a b ! i ! j = a ! i ! j / b ! i ! j"
  using assms shaped2_nth [OF assms(1,3)] shaped2_nth [OF assms(2,3)]
  by (simp add: divide2_def shaped2_def)

lemma shaped2_divide2:
  assumes "shaped2 h w a" "shaped2 h w b"
  shows "shaped2 h w (divide2 a b)"
proof -
  have "length (map2 (/) r s) = w" if "(r, s) \<in> set (zip a b)" for r s
  proof -
    have "r \<in> set a" "s \<in> set b"
      using that by (auto dest: set_zip_leftD set_zip_rightD)
    then show ?thesis using assms by (simp add: shaped2_def list_all_iff)
  qed
  then show ?thesis
    using assms by (auto simp: shaped2_def divide2_def list_all_iff)
qed

lemma np_sum_rows: "np_sum a = sum_list (map sum_list a)"
  unfolding np_sum_def by (induction a) simp_all

lemma np_sum_nth:
  assumes "shaped2 h w a"
  shows "np_sum a = (\<Sum>i<h. \<Sum>j<w. a ! i ! j)"
proof -
  have "np_sum a = (\<Sum>i<length a. sum_list (a ! i))"
    by (simp add: np_sum_rows sum_list_sum_nth [of "map sum_list a"] atLeast0LessThan)
  also have "\<dots> = (\<Sum>i<h. \<Sum>j<w. a ! i ! j)"
    using assms shaped2_nth [OF assms]
    by (intro sum.cong) (simp_all add: shaped2_def sum_list_sum_nth atLeast0LessThan)
  finally show ?thesis .
qed

text \<open>
  The in-place additions keep the shape of the buffers: the buffers that \<open>evaluate\<close>
  normalises have the shape of the label of the scene.
\<close>

lemma slice_bound_le: "slice_bound i n \<le> n"
  unfolding slice_bound_def by (cases "i < 0") auto

lemma length_slice:
  "length (slice lo hi xs) = slice_bound hi (length xs) - slice_bound lo (length xs)"
  using slice_bound_le [of hi "length xs"] by (simp add: slice_def Let_def)

lemma set_slice: "set (slice lo hi xs) \<subseteq> set xs"
  by (auto simp: slice_def Let_def dest: in_set_takeD in_set_dropD)

lemma length_assign_slice:
  assumes "length ys = length (slice lo hi xs)"
  shows "length (assign_slice lo hi xs ys) = length xs"
  using assms slice_bound_le [of lo "length xs"] slice_bound_le [of hi "length xs"]
  by (simp add: assign_slice_def length_slice Let_def)

lemma set_assign_slice: "set (assign_slice lo hi xs ys) \<subseteq> set xs \<union> set ys"
  by (auto simp: assign_slice_def Let_def dest: in_set_takeD in_set_dropD)

lemma shaped2_iff: "shaped2 h w a \<longleftrightarrow> length a = h \<and> (\<forall>r \<in> set a. length r = w)"
  by (simp add: shaped2_def list_all_iff)

lemma increment_region_shaped:
  assumes "shaped2 h w a"
  shows "shaped2 h w (increment_region rows cols a)"
proof -
  let ?new = "map (\<lambda>row. assign_slice (fst cols) (snd cols) row
                 (map (\<lambda>h. h + 1) (slice (fst cols) (snd cols) row)))
              (slice (fst rows) (snd rows) a)"
  have len: "length (assign_slice (fst rows) (snd rows) a ?new) = h"
    using assms by (simp add: length_assign_slice shaped2_iff)
  have "\<forall>r \<in> set ?new. length r = w"
    using assms set_slice [of "fst rows" "snd rows" a]
    by (auto simp: shaped2_iff length_assign_slice)
  then have "\<forall>r \<in> set (assign_slice (fst rows) (snd rows) a ?new). length r = w"
    using assms set_assign_slice [of "fst rows" "snd rows" a ?new]
    by (auto simp: shaped2_iff)
  then show ?thesis
    using len by (simp add: shaped2_iff increment_region_def)
qed

lemma add_into_shaped:
  assumes "shaped2 h w a" and "add_into rows cols a b = Inr r"
  shows "shaped2 h w r"
proof -
  let ?S = "slice (fst rows) (snd rows) a"
  let ?c = "slice_bound (snd cols) w - slice_bound (fst cols) w"
  let ?new = "map2 (\<lambda>row brow. assign_slice (fst cols) (snd cols) row
                 (map2 (+) (slice (fst cols) (snd cols) row) brow)) ?S b"
  have guard: "rect2 b" "dims2 (slice2 rows cols a) = dims2 b"
    and r: "r = assign_slice (fst rows) (snd rows) a ?new"
    using assms(2) by (auto simp: add_into_def split: if_splits)
  have S: "\<forall>row \<in> set ?S. length row = w"
    using assms(1) set_slice [of "fst rows" "snd rows" a] by (auto simp: shaped2_iff)
  have lenb: "length b = length ?S"
    using guard(2) by (simp add: dims2_def slice2_def)
  have b: "\<forall>brow \<in> set b. length brow = ?c"
  proof (cases b)
    case Nil
    then show ?thesis by simp
  next
    case (Cons b0 bs)
    then obtain s0 ss where s: "?S = s0 # ss"
      using lenb by (cases ?S) auto
    have "length b0 = length (slice (fst cols) (snd cols) s0)"
      using guard(2) Cons s by (simp add: dims2_def slice2_def)
    also have "\<dots> = ?c"
      using S s by (simp add: length_slice)
    finally have "length b0 = ?c" .
    then show ?thesis
      using guard(1) Cons by (simp add: rect2_def dims2_def list_all_iff)
  qed
  have new_rows: "\<forall>row \<in> set ?new. length row = w"
  proof
    fix row assume "row \<in> set ?new"
    then obtain s brow where sb: "(s, brow) \<in> set (zip ?S b)"
      and row: "row = assign_slice (fst cols) (snd cols) s
                        (map2 (+) (slice (fst cols) (snd cols) s) brow)"
      by auto
    have "s \<in> set ?S" "brow \<in> set b"
      using sb by (auto dest: set_zip_leftD set_zip_rightD)
    then have "length s = w" "length brow = ?c"
      using S b by auto
    then show "length row = w"
      by (simp add: row length_assign_slice length_slice)
  qed
  have "length ?new = length ?S"
    using lenb by simp
  then have "length r = h"
    using assms(1) by (simp add: r length_assign_slice shaped2_iff)
  moreover have "\<forall>row \<in> set r. length row = w"
    using new_rows assms(1) set_assign_slice [of "fst rows" "snd rows" a ?new]
    unfolding r by (auto simp: shaped2_iff)
  ultimately show ?thesis
    by (simp add: shaped2_iff)
qed

lemma add_patch_shaped:
  assumes "buffers_shaped h w buf" and "add_patch patch_size shape predicted buf indexed = Inr buf'"
  shows "buffers_shaped h w buf'"
  using assms
  by (auto simp: add_patch_def buffers_shaped_def Let_def increment_region_shaped
      split: prod.splits if_splits sum.splits dest: add_into_shaped)

lemma add_patches_shaped:
  "buffers_shaped h w buf \<Longrightarrow> add_patches patch_size shape predicted buf ps = Inr buf' \<Longrightarrow>
   buffers_shaped h w buf'"
  by (induction ps arbitrary: buf) (auto split: sum.splits dest: add_patch_shaped)

lemma process_batch_shaped:
  "buffers_shaped h w buf \<Longrightarrow> process_batch network patch_size shape buf batch = Inr buf' \<Longrightarrow>
   buffers_shaped h w buf'"
  by (auto simp: process_batch_def Let_def split: if_splits dest: add_patches_shaped)

lemma aggregate_shaped:
  "buffers_shaped h w buf \<Longrightarrow>
   aggregate n settings extract network patch_size full_example g buf = (ps, b, st) \<Longrightarrow>
   buffers_shaped h w b"
proof (induction n arbitrary: g buf ps b st)
  case 0
  then show ?case by simp
next
  case (Suc n)
  show ?case
  proof (cases "resume settings extract full_example g")
    case (Pair yielded_batch g')
    show ?thesis
    proof (cases yielded_batch)
      case None
      then show ?thesis using Suc.prems Pair by simp
    next
      case (Some batch)
      show ?thesis
      proof (cases "process_batch network patch_size (dims2 (example_label full_example)) buf batch")
        case (Inl e)
        then show ?thesis using Suc.prems Pair Some by simp
      next
        case (Inr buf')
        have shaped: "buffers_shaped h w buf'"
          using Suc.prems(1) Inr by (rule process_batch_shaped)
        obtain ps' b' st' where rec:
          "aggregate n settings extract network patch_size full_example g' buf' = (ps', b', st')"
          by (cases "aggregate n settings extract network patch_size full_example g' buf'") auto
        have "b = b'" using Suc.prems(2) Pair Some Inr rec by simp
        then show ?thesis using Suc.IH [OF shaped rec] by simp
      qed
    qed
  qed
qed

lemma zeros_like_shaped: "shaped2 h w a \<Longrightarrow> shaped2 h w (zeros_like a)"
  by (simp add: shaped2_iff zeros_like_def)

lemma reached_buffers_shaped:
  assumes "shaped2 h w (example_label full_example)"
    and "aggregate n settings extract network patch_size full_example
           batches_of_patches_with_position
           \<lparr>sum_density_label = zeros_like (example_label full_example),
            sum_count_label = zeros_like (example_label full_example),
            hit_predicted_label = zeros_like (example_label full_example)\<rparr> = (ps, b, st)"
  shows "buffers_shaped h w b"
  using assms(2)
  by (rule aggregate_shaped [rotated]) (simp add: buffers_shaped_def zeros_like_shaped assms(1))

text \<open>
  Claim C5. In the overlap normalisation of \<open>evaluate\<close>, with the three buffers of one
  shape \<open>(h, w)\<close>: no divisor is zero; the divisor at every position is the hit count
  with a count of zero taken as one; the final density map is the accumulated density
  divided by it entry by entry; and the final count is the sum over all pixels of the
  accumulated count contribution divided by it.
\<close>

theorem overlap_normalisation:
  assumes "shaped2 h w (sum_density_label buf)"
    and "shaped2 h w (sum_count_label buf)"
    and "shaped2 h w (hit_predicted_label buf)"
  shows "(\<forall>row \<in> set (astype_float32 (clamp_hits (hit_predicted_label buf))). 0 \<notin> set row)
       \<and> (\<forall>i<h. \<forall>j<w.
            astype_float32 (clamp_hits (hit_predicted_label buf)) ! i ! j
              = clamped_hit_count (hit_predicted_label buf ! i ! j)
          \<and> fst (normalise buf) ! i ! j
              = sum_density_label buf ! i ! j / clamped_hit_count (hit_predicted_label buf ! i ! j))
       \<and> snd (normalise buf)
           = (\<Sum>i<h. \<Sum>j<w.
                sum_count_label buf ! i ! j / clamped_hit_count (hit_predicted_label buf ! i ! j))"
proof -
  let ?d = "astype_float32 (clamp_hits (hit_predicted_label buf))"
  have d: "shaped2 h w ?d"
    using assms(3) by (rule shaped2_astype_clamp)
  have nz: "\<forall>row \<in> set ?d. 0 \<notin> set row"
    using divisors_nonzero by blast
  have entry: "?d ! i ! j = clamped_hit_count (hit_predicted_label buf ! i ! j)"
    if "i < h" "j < w" for i j
    using assms(3) that by (rule astype_clamp_nth)
  have density: "fst (normalise buf) ! i ! j
      = sum_density_label buf ! i ! j / clamped_hit_count (hit_predicted_label buf ! i ! j)"
    if "i < h" "j < w" for i j
    using divide2_nth [OF assms(1) d that] entry [OF that] by (simp add: normalise_def Let_def)
  have "snd (normalise buf) = np_sum (divide2 (sum_count_label buf) ?d)"
    by (simp add: normalise_def Let_def)
  also have "\<dots> = (\<Sum>i<h. \<Sum>j<w. divide2 (sum_count_label buf) ?d ! i ! j)"
    using assms(2) d by (intro np_sum_nth shaped2_divide2)
  also have "\<dots> = (\<Sum>i<h. \<Sum>j<w.
       sum_count_label buf ! i ! j / clamped_hit_count (hit_predicted_label buf ! i ! j))"
    using divide2_nth [OF assms(2) d] entry by (intro sum.cong refl) simp
  finally show ?thesis
    using nz entry density by blast
qed

text \<open>Buffers of shape 2 by 2 with one position that no patch has hit.\<close>

theorem overlap_normalisation_witness:
  "normalise \<lparr>sum_density_label = [[1, 2], [3, 4]], sum_count_label = [[2, 2], [2, 2]],
              hit_predicted_label = [[0, 1], [2, 4]]\<rparr> = ([[1, 2], [3 / 2, 1]], 11 / 2)
   \<and> astype_float32 (clamp_hits [[0, 1], [2, 4]]) = [[1, 1], [2, 4]]"
proof -
  let ?buf = "\<lparr>sum_density_label = [[1, 2], [3, 4]], sum_count_label = [[2, 2], [2, 2]],
               hit_predicted_label = [[0, 1], [2, 4 :: 32 word]]\<rparr>"
  have s: "shaped2 2 2 (sum_density_label ?buf)" "shaped2 2 2 (sum_count_label ?buf)"
    "shaped2 2 2 (hit_predicted_label ?buf)"
    by (simp_all add: shaped2_def)
  note t = overlap_normalisation [OF s]
  have "astype_float32 (clamp_hits [[0, 1], [2, 4]]) = [[1, 1], [2, 4]]"
    by (simp add: astype_float32_def clamp_hits_def)
  moreover have "normalise ?buf = ([[1, 2], [3 / 2, 1]], 11 / 2)"
    using t by (simp add: normalise_def divide2_def np_sum_def astype_float32_def clamp_hits_def)
  ultimately show ?thesis by simp
qed

text \<open>
  Claim C9. The parameter \<open>sliding_window_step\<close> of \<open>evaluate\<close> has no effect: after
  any number of resumptions of the generators, the positions of the patches, the
  aggregation buffers of every scene and the totals are the same for any two values of
  the parameter.
\<close>

theorem evaluate_ignores_sliding_window_step:
  "evaluate n settings extract network patch_size test_dataset sliding_window_step1
   = evaluate n settings extract network patch_size test_dataset sliding_window_step2"
  by (simp add: evaluate_def)

section \<open>Setting up a run: results\<close>

text \<open>
  Claim C8. For every settings object whose application is neither \<^verbatim>\<open>coefficient\<close> nor
  \<^verbatim>\<open>age\<close>, \<open>run_srgan\<close> ends with the \<^verbatim>\<open>ValueError\<close> that names the application, and
  no dataset setup, model setup or training step has been called by then. For every
  crowd dataset name other than \<^verbatim>\<open>World Expo\<close> and \<^verbatim>\<open>ShanghaiTech\<close>, \<open>dataset_setup\<close>
  ends with the \<^verbatim>\<open>ValueError\<close> that names it, and no dataset has been made.
\<close>

theorem unrecognised_names_fail_fast:
  "(application settings \<noteq> ''coefficient'' \<and> application settings \<noteq> ''age'' \<longrightarrow>
      snd (run_srgan env settings)
        = Some (ValueError (''`application` cannot be '' @ application settings @ ''.''))
      \<and> \<not> list_ex is_setup_or_training (fst (run_srgan env settings)))
   \<and> (crowd_dataset crowd_settings \<noteq> ''World Expo''
        \<and> crowd_dataset crowd_settings \<noteq> ''ShanghaiTech'' \<longrightarrow>
      dataset_setup crowd_settings
        = Inl (ValueError (crowd_dataset crowd_settings @ '' is not an understood crowd dataset.'')))"
  by (simp add: run_srgan_def dataset_setup_def is_setup_or_training_def Let_def)

text \<open>
  The application \<^verbatim>\<open>crowd\<close> and the dataset \<^verbatim>\<open>UCF\<close>: the run makes its directory and
  its two summary writers and raises. With the application \<^verbatim>\<open>age\<close> the setup is called.
\<close>

theorem unrecognised_names_fail_fast_witness:
  "run_srgan example_environment (example_run_settings ''crowd'')
     = ([SetGlobalTrialDirectory ''logs/ff3 gpu y2018m04d15h14m14s10'',
         MakeDirs ''logs/ff3 gpu y2018m04d15h14m14s10/temporary'',
         NewSummaryWriter ''logs/ff3 gpu y2018m04d15h14m14s10/DNN'',
         NewSummaryWriter ''logs/ff3 gpu y2018m04d15h14m14s10/GAN''],
        Some (ValueError ''`application` cannot be crowd.''))
   \<and> dataset_setup \<lparr>application = ''crowd'', crowd_dataset = ''UCF'', batch_size = 25\<rparr>
     = Inl (ValueError ''UCF is not an understood crowd dataset.'')
   \<and> list_ex is_setup_or_training (fst (run_srgan example_environment (example_run_settings ''age'')))"
proof -
  note t = unrecognised_names_fail_fast
    [of "example_run_settings ''crowd''" example_environment
        "\<lparr>application = ''crowd'', crowd_dataset = ''UCF'', batch_size = 25\<rparr>"]
  have a: "application (example_run_settings ''crowd'') \<noteq> ''coefficient''
           \<and> application (example_run_settings ''crowd'') \<noteq> ''age''"
    by (simp add: example_run_settings_def)
  have "fst (run_srgan example_environment (example_run_settings ''crowd''))
        = [SetGlobalTrialDirectory ''logs/ff3 gpu y2018m04d15h14m14s10'',
           MakeDirs ''logs/ff3 gpu y2018m04d15h14m14s10/temporary'',
           NewSummaryWriter ''logs/ff3 gpu y2018m04d15h14m14s10/DNN'',
           NewSummaryWriter ''logs/ff3 gpu y2018m04d15h14m14s10/GAN'']"
    by (simp add: run_srgan_def example_run_settings_def example_environment_def path_join_def)
  moreover have "snd (run_srgan example_environment (example_run_settings ''crowd''))
        = Some (ValueError ''`application` cannot be crowd.'')"
    using t a by (simp add: example_run_settings_def)
  moreover have "dataset_setup \<lparr>application = ''crowd'', crowd_dataset = ''UCF'', batch_size = 25\<rparr>
        = Inl (ValueError ''UCF is not an understood crowd dataset.'')"
    using t by simp
  moreover have "list_ex is_setup_or_training
                   (fst (run_srgan example_environment (example_run_settings ''age'')))"
    by (simp add: run_srgan_def train_with_def example_run_settings_def is_setup_or_training_def
        Let_def split: prod.split option.split)
  ultimately show ?thesis
    by (simp add: prod_eq_iff)
qed

end
